theory Spec2Isabelle
  imports Complex_Main "HOL-Library.AList"
begin

section \<open>Python values, exceptions and dictionaries\<close>

text \<open>
  Exceptions are values. \<open>KeyError\<close>, \<open>TypeError\<close>, \<open>IndexError\<close> and \<open>ZeroDivisionError\<close>
  are the built-in exceptions the modelled statements can raise; \<open>SQLAlchemyError\<close> stands for
  \<^verbatim>\<open>sqlalchemy.exc.SQLAlchemyError\<close> and its subclasses, \<open>GenericException\<close> for any other
  subclass of \<^verbatim>\<open>Exception\<close>, and \<open>NonException\<close> for a \<^verbatim>\<open>BaseException\<close> that is not an
  \<^verbatim>\<open>Exception\<close> (KeyboardInterrupt, SystemExit, CancelledError). The string is what
  \<^verbatim>\<open>str(e)\<close> gives.
\<close>

datatype exn =
    KeyError
  | TypeError
  | IndexError
  | ZeroDivisionError
  | SQLAlchemyError string
  | GenericException string
  | NonException string

text \<open>\<^verbatim>\<open>isinstance(e, SQLAlchemyError)\<close> and \<^verbatim>\<open>isinstance(e, Exception)\<close>.\<close>

fun is_SQLAlchemyError :: "exn \<Rightarrow> bool" where
  "is_SQLAlchemyError (SQLAlchemyError _) = True"
| "is_SQLAlchemyError _ = False"

fun is_Exception :: "exn \<Rightarrow> bool" where
  "is_Exception (NonException _) = False"
| "is_Exception _ = True"

fun str_exn :: "exn \<Rightarrow> string" where
  "str_exn KeyError = ''KeyError''"
| "str_exn TypeError = ''TypeError''"
| "str_exn IndexError = ''IndexError''"
| "str_exn ZeroDivisionError = ''ZeroDivisionError''"
| "str_exn (SQLAlchemyError s) = s"
| "str_exn (GenericException s) = s"
| "str_exn (NonException s) = s"

text \<open>
  A method that mutates \<open>self\<close> and may raise is a function from the state to the outcome
  (\<open>Inl\<close> the exception raised, \<open>Inr\<close> the value returned) and the state it leaves behind.
\<close>

type_synonym ('a, 's) py_method = "'s \<Rightarrow> (exn + 'a) \<times> 's"

text \<open>The cache key: \<^verbatim>\<open>database_name: str | int\<close>.\<close>

datatype key = StrKey string | IntKey int

text \<open>
  A Python \<^verbatim>\<open>dict\<close> is an association list in insertion order. \<^verbatim>\<open>d.get(k)\<close>,
  \<^verbatim>\<open>k in d\<close>, \<^verbatim>\<open>d[k] = v\<close> (overwrite in place, or append), \<^verbatim>\<open>del d[k]\<close> (KeyError on a
  missing key) and \<^verbatim>\<open>d.items()\<close>.
\<close>

type_synonym ('k, 'v) dict = "('k \<times> 'v) list"

definition dict_get :: "('k, 'v) dict \<Rightarrow> 'k \<Rightarrow> 'v option" where
  "dict_get d k = map_of d k"

definition dict_contains :: "('k, 'v) dict \<Rightarrow> 'k \<Rightarrow> bool" where
  "dict_contains d k = (k \<in> set (map fst d))"

definition dict_setitem :: "('k, 'v) dict \<Rightarrow> 'k \<Rightarrow> 'v \<Rightarrow> ('k, 'v) dict" where
  "dict_setitem d k v = AList.update k v d"

definition dict_delitem :: "('k, 'v) dict \<Rightarrow> 'k \<Rightarrow> exn + ('k, 'v) dict" where
  "dict_delitem d k = (if dict_contains d k then Inr (AList.delete k d) else Inl KeyError)"

definition dict_items :: "('k, 'v) dict \<Rightarrow> ('k \<times> 'v) list" where
  "dict_items d = d"


section \<open>db_cacher.py: IndividualTTLCache\<close>

text \<open>
  \<^verbatim>\<open>_pool_connection = namedtuple("db_pool", "db_pool life_time")\<close>. The clock
  \<^verbatim>\<open>time.time()\<close> is read as a real number of seconds; every operation that reads the clock
  takes the reading as an argument.
\<close>

record 'p pool_connection =
  db_pool :: 'p
  life_time :: real

record 'p IndividualTTLCache =
  connections :: "(key, 'p pool_connection) dict"
  maxsize :: int
  default_ttl :: int

text \<open>
  \<^verbatim>\<open>__init__(self, maxsize=10, default_ttl=900)\<close>. The daemon thread it starts runs
  \<open>cleanup_expired_items\<close> below; its iterations interleave with the other operations.
\<close>

definition IndividualTTLCache_init :: "int \<Rightarrow> int \<Rightarrow> 'p IndividualTTLCache" where
  "IndividualTTLCache_init maxsize' default_ttl' =
     \<lparr>connections = [], maxsize = maxsize', default_ttl = default_ttl'\<rparr>"

text \<open>
  \<^verbatim>\<open>database_poll = self._connections.get(database_name)\<close>
  \<^verbatim>\<open>return database_poll.db_pool if database_poll else None\<close>
  A namedtuple of two fields is truthy, so the test only separates a miss from a hit.
\<close>

definition get :: "key \<Rightarrow> ('p option, 'p IndividualTTLCache) py_method" where
  "get database_name self =
     (case dict_get (connections self) database_name of
        None \<Rightarrow> (Inr None, self)
      | Some database_poll \<Rightarrow> (Inr (Some (db_pool database_poll)), self))"

text \<open>
  \<^verbatim>\<open>self._connections[database_name] = self._pool_connection(queue_pool, time.time())\<close>
  The first argument is the value \<^verbatim>\<open>time.time()\<close> returns.
\<close>

definition setitem :: "real \<Rightarrow> key \<Rightarrow> 'p \<Rightarrow> (unit, 'p IndividualTTLCache) py_method" where
  "setitem now database_name queue_pool self =
     (Inr (),
      self\<lparr>connections :=
        dict_setitem (connections self) database_name
          \<lparr>db_pool = queue_pool, life_time = now\<rparr>\<rparr>)"

text \<open>
  \<^verbatim>\<open>if database_name in self._connections: del self._connections[database_name]\<close>
\<close>

definition delitem :: "key \<Rightarrow> (unit, 'p IndividualTTLCache) py_method" where
  "delitem database_name self =
     (if dict_contains (connections self) database_name
      then (case dict_delitem (connections self) database_name of
              Inl e \<Rightarrow> (Inl e, self)
            | Inr d \<Rightarrow> (Inr (), self\<lparr>connections := d\<rparr>))
      else (Inr (), self))"

text \<open>\<^verbatim>\<open>for key in keys_to_delete: self.__delitem__(key)\<close>\<close>

fun delete_keys :: "key list \<Rightarrow> (unit, 'p IndividualTTLCache) py_method" where
  "delete_keys [] self = (Inr (), self)"
| "delete_keys (k # ks) self =
     (case delitem k self of
        (Inl e, self') \<Rightarrow> (Inl e, self')
      | (Inr _, self') \<Rightarrow> delete_keys ks self')"

text \<open>
  One iteration of the \<^verbatim>\<open>while True\<close> loop of \<open>cleanup_expired_items\<close>, up to the
  \<^verbatim>\<open>time.sleep(60)\<close>; \<open>current_time\<close> is the clock reading of that iteration.
\<close>

definition cleanup_sweep :: "real \<Rightarrow> (unit, 'p IndividualTTLCache) py_method" where
  "cleanup_sweep current_time self =
     (let keys_to_delete =
            map fst (filter (\<lambda>(key, database_poll). life_time database_poll < current_time)
                       (dict_items (connections self)))
      in delete_keys keys_to_delete self)"

text \<open>
  The loop itself never returns. Its first iterations, one for each clock reading of the
  list, stop early only when an iteration raises.
\<close>

fun cleanup_expired_items :: "real list \<Rightarrow> (unit, 'p IndividualTTLCache) py_method" where
  "cleanup_expired_items [] self = (Inr (), self)"
| "cleanup_expired_items (current_time # later) self =
     (case cleanup_sweep current_time self of
        (Inl e, self') \<Rightarrow> (Inl e, self')
      | (Inr _, self') \<Rightarrow> cleanup_expired_items later self')"

text \<open>A sequence of reads, as a caller issues them one after the other.\<close>

fun get_many :: "key list \<Rightarrow> 'p IndividualTTLCache \<Rightarrow> 'p IndividualTTLCache" where
  "get_many [] self = self"
| "get_many (k # ks) self = get_many ks (snd (get k self))"


section \<open>db_factory.py: DatabaseManager\<close>

subsection \<open>Constructor arguments\<close>

text \<open>
  An argument of a call is either left out, and the parameter takes the default of the
  signature, or passed. The sizing parameters are \<^verbatim>\<open>int | None\<close>.
\<close>

datatype 'a arg = Omitted | Passed 'a

definition default_arg :: "'a \<Rightarrow> 'a arg \<Rightarrow> 'a" where
  "default_arg d a = (case a of Omitted \<Rightarrow> d | Passed v \<Rightarrow> v)"

text \<open>
  \<^verbatim>\<open>x or y\<close> for \<open>x\<close> an \<^verbatim>\<open>int | None\<close>: \<open>x\<close> when it is truthy (an integer other than 0),
  else \<open>y\<close>; \<open>y\<close> is evaluated, and can raise, only in the second case.
\<close>

definition or_else :: "int option \<Rightarrow> exn + int \<Rightarrow> exn + int" where
  "or_else x y = (case x of None \<Rightarrow> y | Some n \<Rightarrow> if n \<noteq> 0 then Inr n else y)"

text \<open>
  \<^verbatim>\<open>a / b\<close> is true division: a TypeError when \<open>a\<close> is None, else the quotient as a float.
  \<^verbatim>\<open>int(x)\<close> truncates a float toward zero. The quotient is modelled as the exact real
  number; the float Python computes truncates to the same integer as long as the
  magnitude of \<open>a\<close> stays below \<open>2 ^ 53\<close>.
\<close>

definition truediv :: "int option \<Rightarrow> int \<Rightarrow> exn + real" where
  "truediv a b =
     (case a of
        None \<Rightarrow> Inl TypeError
      | Some n \<Rightarrow> if b = 0 then Inl ZeroDivisionError else Inr (real_of_int n / real_of_int b))"

definition py_int :: "real \<Rightarrow> int" where
  "py_int x = (if 0 \<le> x then \<lfloor>x\<rfloor> else \<lceil>x\<rceil>)"

definition int_truediv :: "int option \<Rightarrow> int \<Rightarrow> exn + int" where
  "int_truediv a b = (case truediv a b of Inl e \<Rightarrow> Inl e | Inr x \<Rightarrow> Inr (py_int x))"

text \<open>
  What a sizing attribute of the manager holds: an integer, or a tuple. \<^verbatim>\<open>v[0]\<close> raises
  TypeError on an integer and IndexError on the empty tuple.
\<close>

datatype pyval = IntV int | TupleV "pyval list"

fun subscript0 :: "pyval \<Rightarrow> exn + pyval" where
  "subscript0 (IntV _) = Inl TypeError"
| "subscript0 (TupleV []) = Inl IndexError"
| "subscript0 (TupleV (v # _)) = Inr v"

subsection \<open>The driver\<close>

text \<open>
  An \<open>Engine\<close> is the pool handle; it is identified with the keyword arguments
  \<^verbatim>\<open>create_engine\<close> received. An engine object is truthy. A \<open>Connection\<close> is what
  \<^verbatim>\<open>db_pool.connect()\<close> checks out, a \<open>Session\<close> what
  \<^verbatim>\<open>sessionmaker(autocommit=False, autoflush=False, bind=engine)()\<close> returns.
\<close>

record Engine =
  url :: string
  pool_size :: pyval
  pool_recycle :: pyval
  max_overflow :: int
  pool_pre_ping :: bool
  hide_parameters :: bool

datatype Connection = Connection Engine

record Session =
  bind :: Connection
  autocommit :: bool
  autoflush :: bool

text \<open>
  SQLAlchemy is outside the repository. Whether a call into it raises is a parameter of
  each call of the manager: \<open>None\<close> when the call returns, \<open>Some e\<close> when it raises \<open>e\<close>.
\<close>

record driver =
  create_engine :: "Engine \<Rightarrow> exn option"
  connect :: "Engine \<Rightarrow> exn option"
  make_session :: "Session \<Rightarrow> exn option"

text \<open>
  The calls that leave the manager, in the order they happen: \<^verbatim>\<open>create_engine(...)\<close>,
  \<^verbatim>\<open>db_pool.connect()\<close>, the construction of the session, and \<^verbatim>\<open>logging.error(msg)\<close>.
\<close>

datatype event =
    is_CreateEngine: CreateEngine Engine
  | is_Connect: Connect Engine
  | is_MakeSession: MakeSession Session
  | is_LogError: LogError string

subsection \<open>The manager\<close>

record DatabaseManager =
  db_cacher :: "Engine IndividualTTLCache"
  main_db :: string
  db_url :: string
  main_db_poolsize :: pyval
  main_db_recycle :: pyval
  regular_db_poolsize :: pyval
  regular_db_recycle :: pyval

text \<open>
  \<^verbatim>\<open>__init__(self, main_db, db_url, main_db_poolsize=15, main_db_recycle=900,\<close>
  \<^verbatim>\<open>         regular_db_poolsize=5, regular_db_recycle=300)\<close>
  \<^verbatim>\<open>self._main_db_poolsize = main_db_poolsize or 15\<close>
  \<^verbatim>\<open>self._main_db_recycle = main_db_recycle or 900\<close>
  \<^verbatim>\<open>self._regular_db_poolsize = regular_db_poolsize or int(main_db_poolsize/3),\<close>
  \<^verbatim>\<open>self._regular_db_recycle = regular_db_recycle or int(main_db_recycle/3),\<close>
  The comma that ends each of the last two statements makes the value a tuple of one
  element.
\<close>

definition DatabaseManager_init ::
  "string \<Rightarrow> string \<Rightarrow> int option arg \<Rightarrow> int option arg \<Rightarrow> int option arg \<Rightarrow> int option arg
   \<Rightarrow> exn + DatabaseManager" where
  "DatabaseManager_init main_db' db_url' a1 a2 a3 a4 =
     (let main_db_poolsize' = default_arg (Some 15) a1;
          main_db_recycle' = default_arg (Some 900) a2;
          regular_db_poolsize' = default_arg (Some 5) a3;
          regular_db_recycle' = default_arg (Some 300) a4
      in case or_else main_db_poolsize' (Inr 15) of
           Inl e \<Rightarrow> Inl e
         | Inr v1 \<Rightarrow>
        (case or_else main_db_recycle' (Inr 900) of
           Inl e \<Rightarrow> Inl e
         | Inr v2 \<Rightarrow>
        (case or_else regular_db_poolsize' (int_truediv main_db_poolsize' 3) of
           Inl e \<Rightarrow> Inl e
         | Inr v3 \<Rightarrow>
        (case or_else regular_db_recycle' (int_truediv main_db_recycle' 3) of
           Inl e \<Rightarrow> Inl e
         | Inr v4 \<Rightarrow>
             Inr \<lparr>db_cacher = IndividualTTLCache_init 10 900,
                  main_db = main_db',
                  db_url = db_url',
                  main_db_poolsize = IntV v1,
                  main_db_recycle = IntV v2,
                  regular_db_poolsize = TupleV [IntV v3],
                  regular_db_recycle = TupleV [IntV v4]\<rparr>))))"

text \<open>
  The keyword arguments of the \<^verbatim>\<open>create_engine\<close> call of \<open>create_session\<close>, evaluated in
  the order written:
  \<^verbatim>\<open>url=f"{self.db_url}/{db_name}",\<close>
  \<^verbatim>\<open>pool_size=self._main_db_poolsize if db_name == self.main_db else self._regular_db_poolsize[0],\<close>
  \<^verbatim>\<open>pool_recycle=self._main_db_recycle if db_name == self.main_db else self._regular_db_recycle[0],\<close>
  \<^verbatim>\<open>max_overflow=10, pool_pre_ping=True, hide_parameters=True\<close>
\<close>

definition create_engine_args :: "DatabaseManager \<Rightarrow> string \<Rightarrow> exn + Engine" where
  "create_engine_args self db_name =
     (case (if db_name = main_db self then Inr (main_db_poolsize self)
            else subscript0 (regular_db_poolsize self)) of
        Inl e \<Rightarrow> Inl e
      | Inr pool_size' \<Rightarrow>
     (case (if db_name = main_db self then Inr (main_db_recycle self)
            else subscript0 (regular_db_recycle self)) of
        Inl e \<Rightarrow> Inl e
      | Inr pool_recycle' \<Rightarrow>
          Inr \<lparr>url = db_url self @ ''/'' @ db_name,
               pool_size = pool_size',
               pool_recycle = pool_recycle',
               max_overflow = 10,
               pool_pre_ping = True,
               hide_parameters = True\<rparr>))"

text \<open>
  The \<^verbatim>\<open>try\<close> block of \<open>_create_pool_connection\<close>:
  \<^verbatim>\<open>engine = db_pool.connect()\<close>
  \<^verbatim>\<open>session_maker = sessionmaker(autocommit=False, autoflush=False, bind=engine)\<close>
  \<^verbatim>\<open>new_session = session_maker()\<close>
  The state is the list of events so far.
\<close>

definition session_construction :: "driver \<Rightarrow> Engine \<Rightarrow> (Session, event list) py_method" where
  "session_construction drv db_pool' tr =
     (case connect drv db_pool' of
        Some e \<Rightarrow> (Inl e, tr @ [Connect db_pool'])
      | None \<Rightarrow>
          (let new_session =
                 \<lparr>bind = Connection db_pool', autocommit = False, autoflush = False\<rparr>
           in case make_session drv new_session of
                Some e \<Rightarrow> (Inl e, tr @ [Connect db_pool', MakeSession new_session])
              | None \<Rightarrow> (Inr new_session, tr @ [Connect db_pool', MakeSession new_session])))"

text \<open>
  \<open>_create_pool_connection\<close>: the \<^verbatim>\<open>try\<close> block with its handlers
  \<^verbatim>\<open>except SQLAlchemyError as connection_error:\<close>
  \<^verbatim>\<open>    logging.error(f"error while creating database connection from pool: {connection_error}")\<close>
  \<^verbatim>\<open>    raise connection_error\<close>
  \<^verbatim>\<open>except Exception as generic_error:\<close>
  \<^verbatim>\<open>    logging.error(f"error raise while creating database connection from pool: {generic_error}")\<close>
  \<^verbatim>\<open>    raise generic_error\<close>
  \<^verbatim>\<open>else: return new_session\<close>
\<close>

definition create_pool_connection :: "driver \<Rightarrow> Engine \<Rightarrow> (Session, event list) py_method" where
  "create_pool_connection drv db_pool' tr =
     (case session_construction drv db_pool' tr of
        (Inr new_session, tr') \<Rightarrow> (Inr new_session, tr')
      | (Inl e, tr') \<Rightarrow>
          if is_SQLAlchemyError e then
            (Inl e, tr' @ [LogError
               (''error while creating database connection from pool: '' @ str_exn e)])
          else if is_Exception e then
            (Inl e, tr' @ [LogError
               (''error raise while creating database connection from pool: '' @ str_exn e)])
          else (Inl e, tr'))"

text \<open>
  The state \<open>create_session\<close> works on: the manager and the events so far.
\<close>

record world =
  mgr :: DatabaseManager
  trace :: "event list"

text \<open>
  \<open>create_session\<close>; \<open>now\<close> is the clock reading of the cache insertion.
  \<^verbatim>\<open>cached_db_pool = self.db_cacher.get(db_name)\<close>
  \<^verbatim>\<open>if cached_db_pool: return await self._create_pool_connection(cached_db_pool)\<close>
  \<^verbatim>\<open>db_pool = create_engine(...)\<close>
  \<^verbatim>\<open>self.db_cacher[db_name] = db_pool\<close>
  \<^verbatim>\<open>return await self._create_pool_connection(db_pool)\<close>
\<close>

definition create_session :: "driver \<Rightarrow> real \<Rightarrow> string \<Rightarrow> (Session, world) py_method" where
  "create_session drv now db_name w =
     (case get (StrKey db_name) (db_cacher (mgr w)) of
        (Inl e, c) \<Rightarrow> (Inl e, w\<lparr>mgr := (mgr w)\<lparr>db_cacher := c\<rparr>\<rparr>)
      | (Inr (Some cached_db_pool), c) \<Rightarrow>
          (case create_pool_connection drv cached_db_pool (trace w) of
             (r, tr) \<Rightarrow> (r, w\<lparr>mgr := (mgr w)\<lparr>db_cacher := c\<rparr>, trace := tr\<rparr>))
      | (Inr None, c) \<Rightarrow>
          (case create_engine_args (mgr w) db_name of
             Inl e \<Rightarrow> (Inl e, w\<lparr>mgr := (mgr w)\<lparr>db_cacher := c\<rparr>\<rparr>)
           | Inr db_pool' \<Rightarrow>
          (case create_engine drv db_pool' of
             Some e \<Rightarrow>
               (Inl e, w\<lparr>mgr := (mgr w)\<lparr>db_cacher := c\<rparr>,
                         trace := trace w @ [CreateEngine db_pool']\<rparr>)
           | None \<Rightarrow>
          (case setitem now (StrKey db_name) db_pool' c of
             (Inl e, c') \<Rightarrow>
               (Inl e, w\<lparr>mgr := (mgr w)\<lparr>db_cacher := c'\<rparr>,
                         trace := trace w @ [CreateEngine db_pool']\<rparr>)
           | (Inr _, c') \<Rightarrow>
          (case create_pool_connection drv db_pool' (trace w @ [CreateEngine db_pool']) of
             (r, tr) \<Rightarrow> (r, w\<lparr>mgr := (mgr w)\<lparr>db_cacher := c'\<rparr>, trace := tr\<rparr>))))))"


subsection \<open>Example values\<close>

text \<open>A driver whose calls all return, one whose \<open>connect\<close> raises, one whose session raises.\<close>

abbreviation driver_ok :: driver where
  "driver_ok \<equiv>
     \<lparr>create_engine = (\<lambda>_. None), connect = (\<lambda>_. None), make_session = (\<lambda>_. None)\<rparr>"

abbreviation driver_connect_raises :: "exn \<Rightarrow> driver" where
  "driver_connect_raises e \<equiv>
     \<lparr>create_engine = (\<lambda>_. None), connect = (\<lambda>_. Some e), make_session = (\<lambda>_. None)\<rparr>"

abbreviation driver_session_raises :: "exn \<Rightarrow> driver" where
  "driver_session_raises e \<equiv>
     \<lparr>create_engine = (\<lambda>_. None), connect = (\<lambda>_. None), make_session = (\<lambda>_. Some e)\<rparr>"

text \<open>The engine of a database of \<^verbatim>\<open>db://h\<close>, and a manager of that server.\<close>

abbreviation engine_of :: "string \<Rightarrow> int \<Rightarrow> int \<Rightarrow> Engine" where
  "engine_of db_name n r \<equiv>
     \<lparr>url = ''db://h/'' @ db_name, pool_size = IntV n, pool_recycle = IntV r,
      max_overflow = 10, pool_pre_ping = True, hide_parameters = True\<rparr>"

abbreviation manager_of :: "int \<Rightarrow> int \<Rightarrow> int \<Rightarrow> int \<Rightarrow> DatabaseManager" where
  "manager_of mp mr rp rr \<equiv>
     \<lparr>db_cacher = IndividualTTLCache_init 10 900, main_db = ''main'', db_url = ''db://h'',
      main_db_poolsize = IntV mp, main_db_recycle = IntV mr,
      regular_db_poolsize = TupleV [IntV rp], regular_db_recycle = TupleV [IntV rr]\<rparr>"


section \<open>The cache: basic facts\<close>

lemma get_state [simp]: "snd (get k c) = c"
  by (simp add: get_def split: option.split)

lemma get_value: "fst (get k c) = Inr (map_option db_pool (map_of (connections c) k))"
  by (simp add: get_def dict_get_def split: option.split)

lemma get_many_state [simp]: "get_many ks c = c"
  by (induction ks arbitrary: c) simp_all

lemma setitem_connections:
  "connections (snd (setitem now k p c)) =
     AList.update k \<lparr>db_pool = p, life_time = now\<rparr> (connections c)"
  by (simp add: setitem_def dict_setitem_def)

lemma setitem_lookup:
  "map_of (connections (snd (setitem now k p c))) k = Some \<lparr>db_pool = p, life_time = now\<rparr>"
  by (simp add: setitem_connections update_conv')

lemma delitem_eq:
  "delitem k c = (Inr (), c\<lparr>connections := AList.delete k (connections c)\<rparr>)"
  by (simp add: delitem_def dict_delitem_def dict_contains_def)

lemma filter_delete_keys:
  "filter (\<lambda>(k', _). k' \<notin> set ks) (AList.delete k al) =
   filter (\<lambda>(k', _). k' \<notin> set (k # ks)) al"
  by (induction al) (auto simp: AList.delete_eq)

lemma delete_keys_eq:
  "delete_keys ks c =
     (Inr (), c\<lparr>connections := filter (\<lambda>(k, _). k \<notin> set ks) (connections c)\<rparr>)"
proof (induction ks arbitrary: c)
  case Nil
  show ?case by simp
next
  case (Cons k ks)
  show ?case
    by (simp add: delitem_eq Cons.IH filter_delete_keys del: set_simps)
qed

lemma map_of_filter_out:
  "K \<in> S \<Longrightarrow> map_of (filter (\<lambda>(k, _). k \<notin> S) al) K = None"
  by (induction al) auto

lemma map_of_filter_distinct:
  "distinct (map fst al) \<Longrightarrow>
   map_of (filter P al) k = (case map_of al k of None \<Rightarrow> None | Some v \<Rightarrow> if P (k, v) then Some v else None)"
  by (induction al) (auto split: option.splits simp: rev_image_eqI)

lemma cleanup_sweep_eq:
  "cleanup_sweep now c =
     (Inr (), c\<lparr>connections :=
        filter (\<lambda>(k, _). k \<notin> fst ` {(k', e) \<in> set (connections c). life_time e < now})
          (connections c)\<rparr>)"
proof -
  have "set (map fst (filter (\<lambda>(key, e). life_time e < now) (connections c))) =
        fst ` {(k', e) \<in> set (connections c). life_time e < now}"
    by auto
  then show ?thesis
    by (simp add: cleanup_sweep_def dict_items_def delete_keys_eq del: set_map set_filter)
qed

lemma cleanup_sweep_expired:
  assumes "map_of (connections c) K = Some e" and "life_time e < now"
  shows "map_of (connections (snd (cleanup_sweep now c))) K = None"
proof -
  from assms(1) have "(K, e) \<in> set (connections c)" by (rule map_of_SomeD)
  with assms(2) have "K \<in> fst ` {(k', e) \<in> set (connections c). life_time e < now}"
    by force
  then show ?thesis
    by (simp add: cleanup_sweep_eq map_of_filter_out)
qed

lemma cleanup_sweep_lookup:
  assumes "distinct (map fst (connections c))"
  shows "map_of (connections (snd (cleanup_sweep now c))) K =
     (case map_of (connections c) K of
        None \<Rightarrow> None
      | Some e \<Rightarrow> if life_time e < now then None else Some e)"
proof (cases "map_of (connections c) K")
  case None
  then show ?thesis using assms by (simp add: cleanup_sweep_eq map_of_filter_distinct)
next
  case (Some e)
  have "K \<in> fst ` {(k', e') \<in> set (connections c). life_time e' < now} \<longleftrightarrow> life_time e < now"
  proof
    assume "K \<in> fst ` {(k', e') \<in> set (connections c). life_time e' < now}"
    then obtain e' where "(K, e') \<in> set (connections c)" "life_time e' < now" by auto
    with assms Some show "life_time e < now" by (simp add: map_of_is_SomeI[OF assms])
  next
    assume "life_time e < now"
    with Some show "K \<in> fst ` {(k', e') \<in> set (connections c). life_time e' < now}"
      by (force dest: map_of_SomeD)
  qed
  with Some assms show ?thesis by (simp add: cleanup_sweep_eq map_of_filter_distinct)
qed


section \<open>The manager: basic facts\<close>

lemma py_int_trunc: "py_int (real_of_int n / 3) = sgn n * (\<bar>n\<bar> div 3)"
proof (cases "0 \<le> n")
  case True
  then have "py_int (real_of_int n / 3) = n div 3"
    by (simp add: py_int_def floor_divide_of_int_eq[of n 3, simplified])
  with True show ?thesis by (cases "n = 0") (simp_all add: sgn_if)
next
  case False
  then have neg: "n < 0" by simp
  then have "real_of_int n / 3 < 0" by simp
  then have "py_int (real_of_int n / 3) = \<lceil>real_of_int n / 3\<rceil>"
    by (simp add: py_int_def)
  also have "\<dots> = - \<lfloor>real_of_int (- n) / 3\<rfloor>"
    by (simp add: ceiling_def)
  also have "\<dots> = - ((- n) div 3)"
    using floor_divide_of_int_eq[of "- n" 3] by simp
  finally show ?thesis using neg by (simp add: sgn_if)
qed

lemma or_else_truthy: "n \<noteq> 0 \<Longrightarrow> or_else (Some n) y = Inr n"
  by (simp add: or_else_def)

lemma or_else_falsy: "or_else None y = y" "or_else (Some 0) y = y"
  by (simp_all add: or_else_def)

lemma or_else_main: "\<exists>v. or_else x (Inr d) = Inr v \<and> (d \<noteq> 0 \<longrightarrow> v \<noteq> 0) \<and> (x = Some 0 \<longrightarrow> v = d)"
  by (cases x) (auto simp: or_else_def)

lemma int_truediv_3: "int_truediv (Some n) 3 = Inr (sgn n * (\<bar>n\<bar> div 3))"
  using py_int_trunc [of n] by (simp add: int_truediv_def truediv_def)

lemma session_construction_trace:
  "\<exists>evs. snd (session_construction drv p tr) = tr @ evs \<and> filter is_CreateEngine evs = []"
  by (auto simp: session_construction_def Let_def split: option.splits)

lemma create_pool_connection_trace:
  "\<exists>evs. snd (create_pool_connection drv p tr) = tr @ evs \<and> filter is_CreateEngine evs = []"
proof -
  obtain evs where e: "snd (session_construction drv p tr) = tr @ evs" "filter is_CreateEngine evs = []"
    using session_construction_trace by blast
  then show ?thesis
    by (cases "session_construction drv p tr")
       (auto simp: create_pool_connection_def split: sum.splits)
qed

lemma create_session_miss:
  assumes "dict_get (connections (db_cacher (mgr w))) (StrKey k) = None"
    and "create_engine_args (mgr w) k = Inr p"
    and "create_engine drv p = None"
  shows "create_session drv now k w =
     (fst (create_pool_connection drv p (trace w @ [CreateEngine p])),
      w\<lparr>mgr := (mgr w)\<lparr>db_cacher := snd (setitem now (StrKey k) p (db_cacher (mgr w)))\<rparr>,
        trace := snd (create_pool_connection drv p (trace w @ [CreateEngine p]))\<rparr>)"
  using assms
  by (simp add: create_session_def get_def setitem_def split: prod.splits)

lemma create_session_hit:
  assumes "dict_get (connections (db_cacher (mgr w))) (StrKey k) = Some en"
  shows "create_session drv now k w =
     (fst (create_pool_connection drv (db_pool en) (trace w)),
      w\<lparr>trace := snd (create_pool_connection drv (db_pool en) (trace w))\<rparr>)"
  using assms
  by (simp add: create_session_def get_def split: prod.splits)

lemma init_shape:
  assumes "DatabaseManager_init mdb u a1 a2 a3 a4 = Inr m"
  shows "\<exists>mp mr rp rr. m = \<lparr>db_cacher = IndividualTTLCache_init 10 900, main_db = mdb, db_url = u,
            main_db_poolsize = IntV mp, main_db_recycle = IntV mr,
            regular_db_poolsize = TupleV [IntV rp], regular_db_recycle = TupleV [IntV rr]\<rparr>
          \<and> mp \<noteq> 0 \<and> mr \<noteq> 0"
proof -
  obtain v1 where v1: "or_else (default_arg (Some 15) a1) (Inr 15) = Inr v1" "v1 \<noteq> 0"
    using or_else_main [of "default_arg (Some 15) a1" 15] by auto
  obtain v2 where v2: "or_else (default_arg (Some 900) a2) (Inr 900) = Inr v2" "v2 \<noteq> 0"
    using or_else_main [of "default_arg (Some 900) a2" 900] by auto
  from assms v1 v2 show ?thesis
    by (auto simp: DatabaseManager_init_def Let_def split: sum.splits)
qed


section \<open>The cache: claims\<close>

text \<open>
  C1. The claim: for every key and pool, \<open>set\<close> stores the entry with an expiry timestamp
  equal to the insertion time plus the cache's \<open>default_ttl\<close>. The code stores the clock
  reading itself (see \<open>setitem_lookup\<close> for every input); \<open>default_ttl\<close> is never added.
  At \<open>default_ttl = 900\<close> and insertion time 1000 the stored \<open>life_time\<close> is 1000, where the
  claim says 1900.
\<close>

theorem C1_setitem_stores_clock_reading:
  "map_option life_time
     (dict_get
        (connections (snd (setitem 1000 (StrKey ''tenantA'') ''poolX''
           (IndividualTTLCache_init 10 900))))
        (StrKey ''tenantA'')) = Some 1000
   \<and> 1000 + real_of_int (default_ttl (IndividualTTLCache_init 10 900 :: string IndividualTTLCache)) = 1900"
  by (simp add: setitem_def dict_setitem_def dict_get_def IndividualTTLCache_init_def)

text \<open>
  C2. The claim: after \<open>set(K, P)\<close> every \<open>get(K)\<close> returns \<open>P\<close> until a delete or a sweep
  that runs later than insertion time plus \<open>default_ttl\<close>; a sweep before the TTL has
  elapsed does not remove the entry. In the code, with \<open>default_ttl = 900\<close>, an entry
  inserted at time 1000 is removed by a sweep at time 1001, and the next \<open>get\<close> returns
  \<open>None\<close>.
\<close>

theorem C2_sweep_before_ttl_removes_entry:
  "fst (get (StrKey ''tenantA'')
     (snd (cleanup_sweep 1001
        (snd (setitem 1000 (StrKey ''tenantA'') ''poolX'' (IndividualTTLCache_init 10 900))))))
   = Inr None
   \<and> (1001::real) < 1000 + real_of_int (default_ttl (IndividualTTLCache_init 10 900 :: string IndividualTTLCache))"
  by (simp add: get_value cleanup_sweep_eq setitem_connections IndividualTTLCache_init_def)

text \<open>
  C3. A key inserted at time \<open>T\<close> into a cache with a TTL \<open>D \<ge> 0\<close> is absent after a sweep
  at time \<open>T + D + \<epsilon>\<close>, for any \<open>\<epsilon> > 0\<close>, whatever reads (\<open>ks1\<close> before the sweep, \<open>ks2\<close>
  after it) happen in between; the sweep itself does not raise.
\<close>

theorem C3_ttl_expiry:
  assumes "0 \<le> default_ttl c" and "0 < \<epsilon>"
  shows "fst (cleanup_sweep (T + real_of_int (default_ttl c) + \<epsilon>)
                (get_many ks1 (snd (setitem T K P c)))) = Inr ()
       \<and> fst (get K (get_many ks2
                (snd (cleanup_sweep (T + real_of_int (default_ttl c) + \<epsilon>)
                   (get_many ks1 (snd (setitem T K P c))))))) = Inr None"
proof -
  let ?c1 = "snd (setitem T K P c)"
  let ?now = "T + real_of_int (default_ttl c) + \<epsilon>"
  have look: "map_of (connections ?c1) K = Some \<lparr>db_pool = P, life_time = T\<rparr>"
    by (rule setitem_lookup)
  from assms have "T < ?now" by simp
  then have "life_time \<lparr>db_pool = P, life_time = T\<rparr> < ?now" by simp
  with look have "map_of (connections (snd (cleanup_sweep ?now ?c1))) K = None"
    by (rule cleanup_sweep_expired)
  then show ?thesis
    by (simp add: get_value cleanup_sweep_eq)
qed

theorem C3_ttl_expiry_witness:
  "0 \<le> default_ttl (IndividualTTLCache_init 10 1 :: string IndividualTTLCache) \<and> (0::real) < 0.2
   \<and> fst (get (StrKey ''tenantA'')
        (get_many []
          (snd (cleanup_sweep (0 + real_of_int (default_ttl (IndividualTTLCache_init 10 1 :: string IndividualTTLCache)) + 0.2)
            (get_many [StrKey ''tenantA'', StrKey ''tenantA'']
               (snd (setitem 0 (StrKey ''tenantA'') ''poolX'' (IndividualTTLCache_init 10 1)))))))) = Inr None"
proof -
  have h1: "0 \<le> default_ttl (IndividualTTLCache_init 10 1 :: string IndividualTTLCache)"
    by (simp add: IndividualTTLCache_init_def)
  have h2: "(0::real) < 0.2" by simp
  show ?thesis
    using h1 h2 C3_ttl_expiry [OF h1 h2, of 0 "[StrKey ''tenantA'', StrKey ''tenantA'']" "StrKey ''tenantA''" "''poolX''" "[]"]
    by blast
qed

text \<open>
  C6. \<open>get\<close> leaves the cache as it found it, and so does any sequence of reads; the
  timestamp stored at insertion is still the one stored after the reads, and whether a
  later sweep removes the entry depends on that timestamp and the sweep's clock reading
  only. The keys of a dictionary are distinct.
\<close>

theorem C6_get_no_side_effects:
  assumes "distinct (map fst (connections c))"
  shows "snd (get k c) = c \<and> get_many ks c = c
       \<and> map_option life_time
           (dict_get (connections (get_many ks (snd (setitem T K P c)))) K) = Some T
       \<and> fst (get K (snd (cleanup_sweep now (get_many ks (snd (setitem T K P c))))))
           = Inr (if T < now then None else Some P)"
proof -
  let ?c1 = "snd (setitem T K P c)"
  have d: "distinct (map fst (connections ?c1))"
    using assms by (simp add: setitem_connections distinct_update)
  show ?thesis
    by (simp add: get_value cleanup_sweep_lookup[OF d] setitem_lookup dict_get_def)
qed

theorem C6_get_no_side_effects_witness:
  "distinct (map fst (connections (IndividualTTLCache_init 10 900 :: string IndividualTTLCache)))
   \<and> get_many [StrKey ''tenantA'', StrKey ''tenantA'', StrKey ''other'']
        (snd (setitem 1000 (StrKey ''tenantA'') ''poolX'' (IndividualTTLCache_init 10 900)))
      = snd (setitem 1000 (StrKey ''tenantA'') ''poolX'' (IndividualTTLCache_init 10 900))
   \<and> fst (get (StrKey ''tenantA'')
        (snd (cleanup_sweep 1000
          (get_many [StrKey ''tenantA'', StrKey ''tenantA'', StrKey ''other'']
            (snd (setitem 1000 (StrKey ''tenantA'') ''poolX'' (IndividualTTLCache_init 10 900)))))))
      = Inr (Some ''poolX'')
   \<and> fst (get (StrKey ''tenantA'')
        (snd (cleanup_sweep 1001
          (get_many [StrKey ''tenantA'', StrKey ''tenantA'', StrKey ''other'']
            (snd (setitem 1000 (StrKey ''tenantA'') ''poolX'' (IndividualTTLCache_init 10 900)))))))
      = Inr None"
proof -
  have h: "distinct (map fst (connections (IndividualTTLCache_init 10 900 :: string IndividualTTLCache)))"
    by (simp add: IndividualTTLCache_init_def)
  show ?thesis
    using h
      C6_get_no_side_effects [OF h, of "StrKey ''tenantA''"
        "[StrKey ''tenantA'', StrKey ''tenantA'', StrKey ''other'']" 1000 "StrKey ''tenantA''"
        "''poolX''" 1000]
      C6_get_no_side_effects [OF h, of "StrKey ''tenantA''"
        "[StrKey ''tenantA'', StrKey ''tenantA'', StrKey ''other'']" 1000 "StrKey ''tenantA''"
        "''poolX''" 1001]
    by simp
qed

text \<open>
  C7. \<open>get\<close>, \<open>set\<close> and \<open>delete\<close> return for every key \<open>k'\<close> and never raise; for a key \<open>k\<close>
  that is not in the cache, \<open>get\<close> returns \<open>None\<close> and \<open>delete\<close> returns with the cache
  unchanged.
\<close>

theorem C7_cache_operations_total:
  assumes "\<not> dict_contains (connections c) k"
  shows "fst (get k' c) = Inr (map_option db_pool (dict_get (connections c) k'))
       \<and> fst (setitem now k' p c) = Inr ()
       \<and> fst (delitem k' c) = Inr ()
       \<and> get k c = (Inr None, c)
       \<and> delitem k c = (Inr (), c)"
  using assms
  by (auto simp: get_def setitem_def delitem_eq delitem_def dict_get_def dict_contains_def
                 map_of_eq_None_iff split: option.splits)

theorem C7_cache_operations_total_witness:
  "\<not> dict_contains
       (connections (snd (setitem 5 (StrKey ''tenantA'') ''poolX'' (IndividualTTLCache_init 10 900))))
       (IntKey 7)
   \<and> get (IntKey 7) (snd (setitem 5 (StrKey ''tenantA'') ''poolX'' (IndividualTTLCache_init 10 900)))
      = (Inr None, snd (setitem 5 (StrKey ''tenantA'') ''poolX'' (IndividualTTLCache_init 10 900)))
   \<and> delitem (IntKey 7) (snd (setitem 5 (StrKey ''tenantA'') ''poolX'' (IndividualTTLCache_init 10 900)))
      = (Inr (), snd (setitem 5 (StrKey ''tenantA'') ''poolX'' (IndividualTTLCache_init 10 900)))
   \<and> fst (delitem (StrKey ''tenantA'')
        (snd (setitem 5 (StrKey ''tenantA'') ''poolX'' (IndividualTTLCache_init 10 900))))
      = Inr ()"
proof -
  have h: "\<not> dict_contains
       (connections (snd (setitem 5 (StrKey ''tenantA'') ''poolX''
          (IndividualTTLCache_init 10 900 :: string IndividualTTLCache))))
       (IntKey 7)"
    by (simp add: dict_contains_def setitem_connections IndividualTTLCache_init_def)
  show ?thesis
    using h C7_cache_operations_total [OF h, of "StrKey ''tenantA''" 0 "''poolY''"]
    by simp
qed


section \<open>The manager: claims\<close>

text \<open>
  The claim C4 read on the code: with \<open>main_db_poolsize = 30\<close> and the regular sizes left
  out, the regular pool size is 5, not \<open>30 / 3 = 10\<close>, and the attribute holds the tuple
  \<open>(5,)\<close>, not the number.
\<close>

theorem C4_regular_default_is_not_a_third_counterexample:
  "DatabaseManager_init ''main'' ''db://h'' (Passed (Some 30)) Omitted Omitted Omitted =
     Inr \<lparr>db_cacher = IndividualTTLCache_init 10 900, main_db = ''main'', db_url = ''db://h'',
          main_db_poolsize = IntV 30, main_db_recycle = IntV 900,
          regular_db_poolsize = TupleV [IntV 5], regular_db_recycle = TupleV [IntV 300]\<rparr>
   \<and> create_engine_args
        \<lparr>db_cacher = IndividualTTLCache_init 10 900, main_db = ''main'', db_url = ''db://h'',
          main_db_poolsize = IntV 30, main_db_recycle = IntV 900,
          regular_db_poolsize = TupleV [IntV 5], regular_db_recycle = TupleV [IntV 300]\<rparr>
        ''tenant7'' =
     Inr \<lparr>url = ''db://h/tenant7'', pool_size = IntV 5, pool_recycle = IntV 300,
          max_overflow = 10, pool_pre_ping = True, hide_parameters = True\<rparr>
   \<and> int_truediv (Some 30) 3 = Inr 10"
  by (simp add: DatabaseManager_init_def default_arg_def or_else_def create_engine_args_def
                int_truediv_3)

text \<open>
  C4, amended. When the manager is constructed without \<open>regular_db_poolsize\<close> and
  \<open>regular_db_recycle\<close>, the pool of a tenant other than the main one is built with
  \<open>pool_size = 5\<close> and \<open>pool_recycle = 300\<close>, the defaults of the signature, for every value
  of the main sizes; these are a third of the main sizes when those are left at their
  defaults 15 and 900. The third of the main size, truncated toward zero, is what the
  tenant's pool gets when \<open>None\<close> is passed for the regular size and the main size is an
  integer.
\<close>

theorem C4_regular_defaults:
  assumes "k \<noteq> mdb"
  shows "(\<exists>m E. DatabaseManager_init mdb u a1 a2 Omitted Omitted = Inr m
            \<and> create_engine_args m k = Inr E
            \<and> pool_size E = IntV 5 \<and> pool_recycle E = IntV 300)
       \<and> int_truediv (default_arg (Some 15) Omitted) 3 = Inr 5
       \<and> int_truediv (default_arg (Some 900) Omitted) 3 = Inr 300
       \<and> (default_arg (Some 15) a1 = Some n \<and> \<bar>n\<bar> < 2 ^ 53
          \<and> default_arg (Some 900) a2 = Some r \<and> \<bar>r\<bar> < 2 ^ 53 \<longrightarrow>
          (\<exists>m E. DatabaseManager_init mdb u a1 a2 (Passed None) (Passed None) = Inr m
            \<and> create_engine_args m k = Inr E
            \<and> pool_size E = IntV (sgn n * (\<bar>n\<bar> div 3))
            \<and> pool_recycle E = IntV (sgn r * (\<bar>r\<bar> div 3))))"
proof -
  obtain v1 where v1: "or_else (default_arg (Some 15) a1) (Inr 15) = Inr v1"
    using or_else_main [of "default_arg (Some 15) a1" 15] by auto
  obtain v2 where v2: "or_else (default_arg (Some 900) a2) (Inr 900) = Inr v2"
    using or_else_main [of "default_arg (Some 900) a2" 900] by auto
  have A: "\<exists>m E. DatabaseManager_init mdb u a1 a2 Omitted Omitted = Inr m
            \<and> create_engine_args m k = Inr E
            \<and> pool_size E = IntV 5 \<and> pool_recycle E = IntV 300"
    using assms v1 v2
    by (simp add: DatabaseManager_init_def default_arg_def or_else_truthy create_engine_args_def)
  have B: "int_truediv (default_arg (Some 15) Omitted) 3 = Inr 5"
          "int_truediv (default_arg (Some 900) Omitted) 3 = Inr 300"
    by (simp_all add: default_arg_def int_truediv_3)
  have C: "\<exists>m E. DatabaseManager_init mdb u a1 a2 (Passed None) (Passed None) = Inr m
            \<and> create_engine_args m k = Inr E
            \<and> pool_size E = IntV (sgn n * (\<bar>n\<bar> div 3))
            \<and> pool_recycle E = IntV (sgn r * (\<bar>r\<bar> div 3))"
    if "default_arg (Some 15) a1 = Some n" "default_arg (Some 900) a2 = Some r"
    using that assms v1 v2
    by (simp add: DatabaseManager_init_def or_else_falsy int_truediv_3 create_engine_args_def
                  default_arg_def [of _ "Passed None"])
  from A B C show ?thesis by blast
qed

theorem C4_regular_defaults_witness:
  "''tenant7'' \<noteq> ''main''
   \<and> (\<exists>m E. DatabaseManager_init ''main'' ''db://h'' (Passed (Some 30)) (Passed (Some 600))
               Omitted Omitted = Inr m
        \<and> create_engine_args m ''tenant7'' = Inr E
        \<and> pool_size E = IntV 5 \<and> pool_recycle E = IntV 300)
   \<and> default_arg (Some 15) (Passed (Some 30)) = Some 30 \<and> \<bar>30 :: int\<bar> < 2 ^ 53
   \<and> default_arg (Some 900) (Passed (Some 600)) = Some 600 \<and> \<bar>600 :: int\<bar> < 2 ^ 53
   \<and> (\<exists>m E. DatabaseManager_init ''main'' ''db://h'' (Passed (Some 30)) (Passed (Some 600))
               (Passed None) (Passed None) = Inr m
        \<and> create_engine_args m ''tenant7'' = Inr E
        \<and> pool_size E = IntV 10 \<and> pool_recycle E = IntV 200)"
proof -
  have h: "''tenant7'' \<noteq> ''main''" by simp
  show ?thesis
    using h C4_regular_defaults [OF h, of "''db://h''" "Passed (Some 30)" "Passed (Some 600)" 30 600]
    by (simp add: default_arg_def)
qed

text \<open>
  C5. For a manager as the constructor leaves it, with any cache contents \<open>c\<close>, a call of
  \<open>create_session\<close> that misses the cache calls \<open>create_engine\<close> with the main sizes when the
  key equals \<open>main_db\<close> and with the regular sizes for every other key; equality of strings
  is the only test. The call changes nothing of the manager but its cache, so the same
  holds at every later call.
\<close>

theorem C5_policy_selection:
  assumes "DatabaseManager_init mdb u a1 a2 a3 a4 = Inr m0"
    and "mgr w = m0\<lparr>db_cacher := c\<rparr>"
    and "dict_get (connections c) (StrKey k) = None"
  shows "\<exists>mp mr rp rr E.
           main_db_poolsize m0 = IntV mp \<and> main_db_recycle m0 = IntV mr
         \<and> regular_db_poolsize m0 = TupleV [IntV rp] \<and> regular_db_recycle m0 = TupleV [IntV rr]
         \<and> E = \<lparr>url = u @ ''/'' @ k,
                 pool_size = IntV (if k = mdb then mp else rp),
                 pool_recycle = IntV (if k = mdb then mr else rr),
                 max_overflow = 10, pool_pre_ping = True, hide_parameters = True\<rparr>
         \<and> create_engine_args (mgr w) k = Inr E
         \<and> take (Suc (length (trace w))) (trace (snd (create_session drv now k w)))
             = trace w @ [CreateEngine E]
         \<and> (mgr (snd (create_session drv now k w)))\<lparr>db_cacher := c\<rparr> = mgr w"
proof -
  from init_shape [OF assms(1)] obtain mp mr rp rr where
    m: "m0 = \<lparr>db_cacher = IndividualTTLCache_init 10 900, main_db = mdb, db_url = u,
            main_db_poolsize = IntV mp, main_db_recycle = IntV mr,
            regular_db_poolsize = TupleV [IntV rp], regular_db_recycle = TupleV [IntV rr]\<rparr>"
    by blast
  define E where "E = \<lparr>url = u @ ''/'' @ k,
                 pool_size = IntV (if k = mdb then mp else rp),
                 pool_recycle = IntV (if k = mdb then mr else rr),
                 max_overflow = 10, pool_pre_ping = True, hide_parameters = True\<rparr>"
  have args: "create_engine_args (mgr w) k = Inr E"
    using m assms(2) by (simp add: create_engine_args_def E_def)
  have miss: "dict_get (connections (db_cacher (mgr w))) (StrKey k) = None"
    using assms(2,3) by simp
  have tr: "take (Suc (length (trace w))) (trace (snd (create_session drv now k w)))
             = trace w @ [CreateEngine E]"
  proof (cases "create_engine drv E")
    case None
    obtain evs where "snd (create_pool_connection drv E (trace w @ [CreateEngine E]))
        = (trace w @ [CreateEngine E]) @ evs"
      using create_pool_connection_trace by blast
    then show ?thesis
      by (simp add: create_session_miss [OF miss args None])
  next
    case (Some e)
    then show ?thesis
      using miss args by (simp add: create_session_def get_def)
  qed
  have st: "(mgr (snd (create_session drv now k w)))\<lparr>db_cacher := c\<rparr> = mgr w"
  proof (cases "create_engine drv E")
    case None
    show ?thesis
      using assms(2) by (simp add: create_session_miss [OF miss args None])
  next
    case (Some e)
    then show ?thesis
      using miss args assms(2) by (simp add: create_session_def get_def)
  qed
  from m args tr st show ?thesis
    unfolding E_def by simp
qed

theorem C5_policy_selection_witness:
  "DatabaseManager_init ''main'' ''db://h'' Omitted Omitted Omitted Omitted
     = Inr (manager_of 15 900 5 300)
   \<and> dict_get (connections (snd (setitem 7 (StrKey ''tenant7'') (engine_of ''tenant7'' 5 300)
                                   (IndividualTTLCache_init 10 900)))) (StrKey ''main'') = None
   \<and> dict_get (connections (snd (setitem 7 (StrKey ''tenant7'') (engine_of ''tenant7'' 5 300)
                                   (IndividualTTLCache_init 10 900)))) (StrKey ''Main'') = None
   \<and> take 1 (trace (snd (create_session driver_ok 8 ''main''
        \<lparr>mgr = (manager_of 15 900 5 300)
                 \<lparr>db_cacher := snd (setitem 7 (StrKey ''tenant7'') (engine_of ''tenant7'' 5 300)
                                      (IndividualTTLCache_init 10 900))\<rparr>,
          trace = []\<rparr>)))
      = [CreateEngine (engine_of ''main'' 15 900)]
   \<and> take 1 (trace (snd (create_session driver_ok 8 ''Main''
        \<lparr>mgr = (manager_of 15 900 5 300)
                 \<lparr>db_cacher := snd (setitem 7 (StrKey ''tenant7'') (engine_of ''tenant7'' 5 300)
                                      (IndividualTTLCache_init 10 900))\<rparr>,
          trace = []\<rparr>)))
      = [CreateEngine (engine_of ''Main'' 5 300)]"
proof -
  let ?c = "snd (setitem 7 (StrKey ''tenant7'') (engine_of ''tenant7'' 5 300)
                   (IndividualTTLCache_init 10 900))"
  let ?w = "\<lparr>mgr = (manager_of 15 900 5 300)\<lparr>db_cacher := ?c\<rparr>, trace = []\<rparr>"
  have h1: "DatabaseManager_init ''main'' ''db://h'' Omitted Omitted Omitted Omitted
     = Inr (manager_of 15 900 5 300)"
    by (simp add: DatabaseManager_init_def default_arg_def or_else_def)
  have h2: "mgr ?w = (manager_of 15 900 5 300)\<lparr>db_cacher := ?c\<rparr>" by simp
  have h3: "dict_get (connections ?c) (StrKey ''main'') = None"
    by (simp add: dict_get_def setitem_connections IndividualTTLCache_init_def)
  have h4: "dict_get (connections ?c) (StrKey ''Main'') = None"
    by (simp add: dict_get_def setitem_connections IndividualTTLCache_init_def)
  show ?thesis
    using h1 h3 h4
      C5_policy_selection [OF h1 h2 h3, of driver_ok 8]
      C5_policy_selection [OF h1 h2 h4, of driver_ok 8]
    by simp
qed

text \<open>
  C8. When the construction of the session raises an exception \<open>e\<close> (a subclass of
  \<open>Exception\<close>), \<open>_create_pool_connection\<close> logs one error record, the message ending with
  \<open>str(e)\<close>, and raises the same \<open>e\<close>; the pool was asked to connect once, and nothing else
  was called.
\<close>

theorem C8_errors_logged_and_reraised:
  assumes "session_construction drv p tr = (Inl e, tr')" and "is_Exception e"
  shows "create_pool_connection drv p tr =
           (Inl e, tr' @ [LogError
              ((if is_SQLAlchemyError e
                then ''error while creating database connection from pool: ''
                else ''error raise while creating database connection from pool: '') @ str_exn e)])
       \<and> (tr' = tr @ [Connect p]
          \<or> tr' = tr @ [Connect p,
                        MakeSession \<lparr>bind = Connection p, autocommit = False, autoflush = False\<rparr>])"
proof -
  have "create_pool_connection drv p tr =
           (Inl e, tr' @ [LogError
              ((if is_SQLAlchemyError e
                then ''error while creating database connection from pool: ''
                else ''error raise while creating database connection from pool: '') @ str_exn e)])"
    using assms by (simp add: create_pool_connection_def)
  moreover have "tr' = tr @ [Connect p]
          \<or> tr' = tr @ [Connect p,
                        MakeSession \<lparr>bind = Connection p, autocommit = False, autoflush = False\<rparr>]"
    using assms(1) by (auto simp: session_construction_def Let_def split: option.splits)
  ultimately show ?thesis by blast
qed

theorem C8_errors_logged_and_reraised_witness:
  "session_construction (driver_connect_raises (SQLAlchemyError ''pool exhausted''))
      (engine_of ''tenant7'' 5 300) []
     = (Inl (SQLAlchemyError ''pool exhausted''), [Connect (engine_of ''tenant7'' 5 300)])
   \<and> is_Exception (SQLAlchemyError ''pool exhausted'')
   \<and> create_pool_connection (driver_connect_raises (SQLAlchemyError ''pool exhausted''))
      (engine_of ''tenant7'' 5 300) []
     = (Inl (SQLAlchemyError ''pool exhausted''),
        [Connect (engine_of ''tenant7'' 5 300),
         LogError ''error while creating database connection from pool: pool exhausted''])
   \<and> session_construction (driver_session_raises (GenericException ''bad bind''))
      (engine_of ''tenant7'' 5 300) []
     = (Inl (GenericException ''bad bind''),
        [Connect (engine_of ''tenant7'' 5 300),
         MakeSession \<lparr>bind = Connection (engine_of ''tenant7'' 5 300),
                      autocommit = False, autoflush = False\<rparr>])
   \<and> is_Exception (GenericException ''bad bind'')
   \<and> create_pool_connection (driver_session_raises (GenericException ''bad bind''))
      (engine_of ''tenant7'' 5 300) []
     = (Inl (GenericException ''bad bind''),
        [Connect (engine_of ''tenant7'' 5 300),
         MakeSession \<lparr>bind = Connection (engine_of ''tenant7'' 5 300),
                      autocommit = False, autoflush = False\<rparr>,
         LogError ''error raise while creating database connection from pool: bad bind''])"
proof -
  have a1: "session_construction (driver_connect_raises (SQLAlchemyError ''pool exhausted''))
      (engine_of ''tenant7'' 5 300) []
     = (Inl (SQLAlchemyError ''pool exhausted''), [Connect (engine_of ''tenant7'' 5 300)])"
    by (simp add: session_construction_def)
  have a2: "is_Exception (SQLAlchemyError ''pool exhausted'')" by simp
  have b1: "session_construction (driver_session_raises (GenericException ''bad bind''))
      (engine_of ''tenant7'' 5 300) []
     = (Inl (GenericException ''bad bind''),
        [Connect (engine_of ''tenant7'' 5 300),
         MakeSession \<lparr>bind = Connection (engine_of ''tenant7'' 5 300),
                      autocommit = False, autoflush = False\<rparr>])"
    by (simp add: session_construction_def)
  have b2: "is_Exception (GenericException ''bad bind'')" by simp
  show ?thesis
    using a1 a2 b1 b2
      C8_errors_logged_and_reraised [OF a1 a2]
      C8_errors_logged_and_reraised [OF b1 b2]
    by simp
qed

text \<open>
  The claim C9 read on the code: with \<open>main_db_poolsize = 2\<close> and \<open>regular_db_poolsize = 0\<close>
  the regular pool size is \<open>int(2 / 3) = 0\<close>.
\<close>

theorem C9_zero_sized_regular_pool_counterexample:
  "DatabaseManager_init ''main'' ''db://h'' (Passed (Some 2)) Omitted (Passed (Some 0)) Omitted =
     Inr \<lparr>db_cacher = IndividualTTLCache_init 10 900, main_db = ''main'', db_url = ''db://h'',
          main_db_poolsize = IntV 2, main_db_recycle = IntV 900,
          regular_db_poolsize = TupleV [IntV 0], regular_db_recycle = TupleV [IntV 300]\<rparr>
   \<and> create_engine_args
        \<lparr>db_cacher = IndividualTTLCache_init 10 900, main_db = ''main'', db_url = ''db://h'',
          main_db_poolsize = IntV 2, main_db_recycle = IntV 900,
          regular_db_poolsize = TupleV [IntV 0], regular_db_recycle = TupleV [IntV 300]\<rparr>
        ''tenant7'' =
     Inr \<lparr>url = ''db://h/tenant7'', pool_size = IntV 0, pool_recycle = IntV 300,
          max_overflow = 10, pool_pre_ping = True, hide_parameters = True\<rparr>"
  by (simp add: DatabaseManager_init_def default_arg_def or_else_def create_engine_args_def
                int_truediv_3)

text \<open>
  C9, amended. Passing 0 for \<open>main_db_poolsize\<close> (\<open>main_db_recycle\<close>) makes the manager use
  15 (900), and the main sizes are never 0. Passing 0 for \<open>regular_db_poolsize\<close>
  (\<open>regular_db_recycle\<close>), with a main size \<open>n\<close> other than 0, gives the tenants' pools the
  size \<open>n / 3\<close> truncated toward zero, which is 0 exactly when the magnitude of \<open>n\<close> is
  below 3.
\<close>

theorem C9_falsy_arguments:
  assumes "DatabaseManager_init mdb u a1 a2 a3 a4 = Inr m"
  shows "(a1 = Passed (Some 0) \<longrightarrow> main_db_poolsize m = IntV 15)
       \<and> (a2 = Passed (Some 0) \<longrightarrow> main_db_recycle m = IntV 900)
       \<and> main_db_poolsize m \<noteq> IntV 0 \<and> main_db_recycle m \<noteq> IntV 0
       \<and> (k \<noteq> mdb \<and> a3 = Passed (Some 0) \<and> default_arg (Some 15) a1 = Some n \<and> n \<noteq> 0 \<and> \<bar>n\<bar> < 2 ^ 53 \<longrightarrow>
            map_sum id pool_size (create_engine_args m k) = Inr (IntV (sgn n * (\<bar>n\<bar> div 3)))
            \<and> (sgn n * (\<bar>n\<bar> div 3) = 0 \<longleftrightarrow> \<bar>n\<bar> < 3))
       \<and> (k \<noteq> mdb \<and> a4 = Passed (Some 0) \<and> default_arg (Some 900) a2 = Some r \<and> r \<noteq> 0 \<and> \<bar>r\<bar> < 2 ^ 53 \<longrightarrow>
            map_sum id pool_recycle (create_engine_args m k) = Inr (IntV (sgn r * (\<bar>r\<bar> div 3)))
            \<and> (sgn r * (\<bar>r\<bar> div 3) = 0 \<longleftrightarrow> \<bar>r\<bar> < 3))"
proof -
  have z: "(sgn x * (\<bar>x\<bar> div 3) = 0 \<longleftrightarrow> \<bar>x\<bar> < 3)" if "x \<noteq> 0" for x :: int
    using that by (auto simp: sgn_if div_eq_0_iff)
  from init_shape [OF assms] obtain mp mr rp rr where
    m: "m = \<lparr>db_cacher = IndividualTTLCache_init 10 900, main_db = mdb, db_url = u,
            main_db_poolsize = IntV mp, main_db_recycle = IntV mr,
            regular_db_poolsize = TupleV [IntV rp], regular_db_recycle = TupleV [IntV rr]\<rparr>"
    and nz: "mp \<noteq> 0" "mr \<noteq> 0" by blast
  have 1: "a1 = Passed (Some 0) \<longrightarrow> main_db_poolsize m = IntV 15"
    using assms by (auto simp: DatabaseManager_init_def default_arg_def or_else_def Let_def split: sum.splits)
  have 2: "a2 = Passed (Some 0) \<longrightarrow> main_db_recycle m = IntV 900"
    using assms by (auto simp: DatabaseManager_init_def default_arg_def or_else_def Let_def split: sum.splits)
  have 3: "main_db_poolsize m \<noteq> IntV 0 \<and> main_db_recycle m \<noteq> IntV 0"
    using m nz by simp
  have 4: "map_sum id pool_size (create_engine_args m k) = Inr (IntV (sgn n * (\<bar>n\<bar> div 3)))"
    if "k \<noteq> mdb" "a3 = Passed (Some 0)" "default_arg (Some 15) a1 = Some n" "n \<noteq> 0"
    using that assms m
    by (auto simp: DatabaseManager_init_def default_arg_def or_else_def Let_def int_truediv_3
                   create_engine_args_def split: sum.splits)
  have 5: "map_sum id pool_recycle (create_engine_args m k) = Inr (IntV (sgn r * (\<bar>r\<bar> div 3)))"
    if "k \<noteq> mdb" "a4 = Passed (Some 0)" "default_arg (Some 900) a2 = Some r" "r \<noteq> 0"
    using that assms m
    by (auto simp: DatabaseManager_init_def default_arg_def or_else_def Let_def int_truediv_3
                   create_engine_args_def split: sum.splits)
  from 1 2 3 4 5 z [of n] z [of r] show ?thesis by blast
qed

theorem C9_falsy_arguments_witness:
  "DatabaseManager_init ''main'' ''db://h'' (Passed (Some 0)) (Passed (Some 0)) Omitted Omitted
     = Inr (manager_of 15 900 5 300)
   \<and> DatabaseManager_init ''main'' ''db://h'' (Passed (Some 30)) (Passed (Some 600))
       (Passed (Some 0)) (Passed (Some 0))
     = Inr (manager_of 30 600 10 200)
   \<and> create_engine_args (manager_of 30 600 10 200) ''tenant7'' = Inr (engine_of ''tenant7'' 10 200)
   \<and> main_db_poolsize (manager_of 15 900 5 300) = IntV 15
   \<and> map_sum id pool_size (create_engine_args (manager_of 30 600 10 200) ''tenant7'')
       = Inr (IntV (sgn 30 * (\<bar>30\<bar> div 3)))"
proof -
  have h1: "DatabaseManager_init ''main'' ''db://h'' (Passed (Some 0)) (Passed (Some 0)) Omitted Omitted
     = Inr (manager_of 15 900 5 300)"
    by (simp add: DatabaseManager_init_def default_arg_def or_else_def)
  have h2: "DatabaseManager_init ''main'' ''db://h'' (Passed (Some 30)) (Passed (Some 600))
       (Passed (Some 0)) (Passed (Some 0))
     = Inr (manager_of 30 600 10 200)"
    by (simp add: DatabaseManager_init_def default_arg_def or_else_def int_truediv_3)
  show ?thesis
    using h1 h2
      C9_falsy_arguments [OF h1, of "''tenant7''" 0 0]
      C9_falsy_arguments [OF h2, of "''tenant7''" 30 600]
    by (simp add: default_arg_def create_engine_args_def)
qed

text \<open>
  C10. On a miss the new pool is in the cache before the connection is acquired: when
  \<open>connect\<close> then raises \<open>e\<close>, \<open>create_session\<close> raises \<open>e\<close> and the cache holds the pool
  under the key; the next \<open>create_session\<close> for the key connects through that pool and
  builds no other.
\<close>

theorem C10_pool_cached_before_connect:
  assumes "dict_get (connections (db_cacher (mgr w))) (StrKey k) = None"
    and "create_engine_args (mgr w) k = Inr p"
    and "create_engine drv p = None"
    and "connect drv p = Some e"
  shows "fst (create_session drv now k w) = Inl e
       \<and> dict_get (connections (db_cacher (mgr (snd (create_session drv now k w))))) (StrKey k)
           = Some \<lparr>db_pool = p, life_time = now\<rparr>
       \<and> fst (get (StrKey k) (db_cacher (mgr (snd (create_session drv now k w))))) = Inr (Some p)
       \<and> take (length (trace w) + 2) (trace (snd (create_session drv now k w)))
           = trace w @ [CreateEngine p, Connect p]
       \<and> create_session drv' now' k (snd (create_session drv now k w)) =
           (fst (create_pool_connection drv' p (trace (snd (create_session drv now k w)))),
            (snd (create_session drv now k w))
              \<lparr>trace := snd (create_pool_connection drv' p
                                (trace (snd (create_session drv now k w))))\<rparr>)
       \<and> filter is_CreateEngine (trace (snd (create_session drv' now' k
                                               (snd (create_session drv now k w)))))
           = filter is_CreateEngine (trace w) @ [CreateEngine p]"
proof -
  let ?w1 = "snd (create_session drv now k w)"
  have sc: "session_construction drv p (trace w @ [CreateEngine p])
              = (Inl e, trace w @ [CreateEngine p, Connect p])"
    using assms(4) by (simp add: session_construction_def)
  then have cpc: "fst (create_pool_connection drv p (trace w @ [CreateEngine p])) = Inl e"
    and cpt: "\<exists>l. snd (create_pool_connection drv p (trace w @ [CreateEngine p]))
                 = trace w @ [CreateEngine p, Connect p] @ l \<and> filter is_CreateEngine l = []"
    by (simp_all add: create_pool_connection_def)
  note miss = create_session_miss [OF assms(1,2,3), of now]
  have r1: "fst (create_session drv now k w) = Inl e"
    by (simp add: miss cpc)
  have look: "dict_get (connections (db_cacher (mgr ?w1))) (StrKey k)
                = Some \<lparr>db_pool = p, life_time = now\<rparr>"
    by (simp add: miss dict_get_def setitem_lookup)
  then have g: "fst (get (StrKey k) (db_cacher (mgr ?w1))) = Inr (Some p)"
    by (simp add: get_def)
  obtain l where l: "trace ?w1 = trace w @ [CreateEngine p, Connect p] @ l"
    "filter is_CreateEngine l = []"
    using cpt by (auto simp: miss)
  have t: "take (length (trace w) + 2) (trace ?w1) = trace w @ [CreateEngine p, Connect p]"
    by (simp add: l)
  have second: "create_session drv' now' k ?w1 =
           (fst (create_pool_connection drv' p (trace ?w1)),
            ?w1\<lparr>trace := snd (create_pool_connection drv' p (trace ?w1))\<rparr>)"
    using create_session_hit [OF look, of drv' now'] by simp
  obtain evs where evs: "snd (create_pool_connection drv' p (trace ?w1)) = trace ?w1 @ evs"
    "filter is_CreateEngine evs = []"
    using create_pool_connection_trace by blast
  have "trace (snd (create_session drv' now' k ?w1)) = trace ?w1 @ evs"
  proof -
    have upd: "trace (W\<lparr>trace := v\<rparr>) = v" for W :: world and v
      by simp
    show ?thesis
      by (simp only: second evs(1) snd_conv upd)
  qed
  then have "filter is_CreateEngine (trace (snd (create_session drv' now' k ?w1)))
           = filter is_CreateEngine (trace ?w1)"
    by (simp only: filter_append evs(2) append_Nil2)
  then have f: "filter is_CreateEngine (trace (snd (create_session drv' now' k ?w1)))
           = filter is_CreateEngine (trace w) @ [CreateEngine p]"
    by (simp add: l)
  from r1 look g t second f show ?thesis by blast
qed

theorem C10_pool_cached_before_connect_witness:
  "dict_get (connections (db_cacher (mgr \<lparr>mgr = manager_of 15 900 5 300, trace = []\<rparr>)))
      (StrKey ''tenant7'') = None
   \<and> create_engine_args (mgr \<lparr>mgr = manager_of 15 900 5 300, trace = []\<rparr>) ''tenant7''
      = Inr (engine_of ''tenant7'' 5 300)
   \<and> create_engine (driver_connect_raises (SQLAlchemyError ''refused'')) (engine_of ''tenant7'' 5 300)
      = None
   \<and> connect (driver_connect_raises (SQLAlchemyError ''refused'')) (engine_of ''tenant7'' 5 300)
      = Some (SQLAlchemyError ''refused'')
   \<and> create_session (driver_connect_raises (SQLAlchemyError ''refused'')) 8 ''tenant7''
        \<lparr>mgr = manager_of 15 900 5 300, trace = []\<rparr>
      = (Inl (SQLAlchemyError ''refused''),
         \<lparr>mgr = (manager_of 15 900 5 300)
                  \<lparr>db_cacher := \<lparr>connections =
                      [(StrKey ''tenant7'', \<lparr>db_pool = engine_of ''tenant7'' 5 300, life_time = 8\<rparr>)],
                      maxsize = 10, default_ttl = 900\<rparr>\<rparr>,
           trace = [CreateEngine (engine_of ''tenant7'' 5 300),
                    Connect (engine_of ''tenant7'' 5 300),
                    LogError ''error while creating database connection from pool: refused'']\<rparr>)
   \<and> filter is_CreateEngine (trace (snd (create_session driver_ok 9 ''tenant7''
        (snd (create_session (driver_connect_raises (SQLAlchemyError ''refused'')) 8 ''tenant7''
           \<lparr>mgr = manager_of 15 900 5 300, trace = []\<rparr>)))))
      = [CreateEngine (engine_of ''tenant7'' 5 300)]"
proof -
  let ?w = "\<lparr>mgr = manager_of 15 900 5 300, trace = []\<rparr>"
  let ?d = "driver_connect_raises (SQLAlchemyError ''refused'')"
  have h1: "dict_get (connections (db_cacher (mgr ?w))) (StrKey ''tenant7'') = None"
    by (simp add: dict_get_def IndividualTTLCache_init_def)
  have h2: "create_engine_args (mgr ?w) ''tenant7'' = Inr (engine_of ''tenant7'' 5 300)"
    by (simp add: create_engine_args_def)
  have h3: "create_engine ?d (engine_of ''tenant7'' 5 300) = None" by simp
  have h4: "connect ?d (engine_of ''tenant7'' 5 300) = Some (SQLAlchemyError ''refused'')" by simp
  have run: "create_session ?d 8 ''tenant7'' ?w
      = (Inl (SQLAlchemyError ''refused''),
         \<lparr>mgr = (manager_of 15 900 5 300)
                  \<lparr>db_cacher := \<lparr>connections =
                      [(StrKey ''tenant7'', \<lparr>db_pool = engine_of ''tenant7'' 5 300, life_time = 8\<rparr>)],
                      maxsize = 10, default_ttl = 900\<rparr>\<rparr>,
           trace = [CreateEngine (engine_of ''tenant7'' 5 300),
                    Connect (engine_of ''tenant7'' 5 300),
                    LogError ''error while creating database connection from pool: refused'']\<rparr>)"
    by (simp add: create_session_def get_def dict_get_def setitem_def dict_setitem_def
                  create_engine_args_def create_pool_connection_def session_construction_def
                  IndividualTTLCache_init_def)
  from C10_pool_cached_before_connect [OF h1 h2 h3 h4, of 8 driver_ok 9]
  have "filter is_CreateEngine (trace (snd (create_session driver_ok 9 ''tenant7''
          (snd (create_session ?d 8 ''tenant7'' ?w)))))
        = filter is_CreateEngine (trace ?w) @ [CreateEngine (engine_of ''tenant7'' 5 300)]"
    by blast
  also have "\<dots> = [CreateEngine (engine_of ''tenant7'' 5 300)]"
    by simp
  finally show ?thesis
    using h1 h2 h3 h4 run by blast
qed

end
